theory Spec2Isabelle
  imports Complex_Main "HOL-Library.Multiset"
begin

section \<open>Python exceptions and results\<close>

text \<open>
  The exceptions the modelled functions can meet. \<open>KeyboardInterrupt\<close> and
  \<open>SystemExit\<close> derive from \<open>BaseException\<close> only; every other one derives from
  \<open>Exception\<close>. The source distinguishes the two: \<open>load_checkpoint\<close> catches
  \<open>Exception\<close>, \<open>next_batch\<close> catches \<open>BaseException\<close>.
\<close>

datatype exc =
    TypeError
  | IndexError
  | RuntimeError
  | ValueError
  | AssertionError
  | UnboundLocalError
  | StopIteration
  | OSError
  | KeyboardInterrupt
  | SystemExit

fun is_Exception :: "exc \<Rightarrow> bool" where
  "is_Exception KeyboardInterrupt = False"
| "is_Exception SystemExit = False"
| "is_Exception _ = True"

text \<open>
  Tensors hold floating-point numbers; the model computes over the reals. What a float
  computation yields as \<open>inf\<close> or \<open>nan\<close> because of a division by zero has no
  real value: the model returns \<open>NonFinite\<close> there instead of HOL's \<open>x / 0 = 0\<close>.
  Rounding, overflow and underflow of floats are outside the model.
\<close>

datatype failure = Raised exc | NonFinite

definition bind_result :: "'e + 'a \<Rightarrow> ('a \<Rightarrow> 'e + 'b) \<Rightarrow> 'e + 'b" where
  "bind_result r f = (case r of Inl e \<Rightarrow> Inl e | Inr v \<Rightarrow> f v)"

section \<open>Tensors of one and two dimensions\<close>

text \<open>
  A 2-D tensor is the list of its rows, all of one length. Tensors with a dimension of
  extent zero, and tensors of three or more dimensions, are outside the model.
\<close>

type_synonym matrix = "real list list"

datatype tensor = Vec "real list" | Mat matrix

definition ncols :: "matrix \<Rightarrow> nat" where
  "ncols m = (case m of [] \<Rightarrow> 0 | r # _ \<Rightarrow> length r)"

text \<open>\<^verbatim>\<open>if x.dim() == 1: x = x.unsqueeze(0)\<close>\<close>

fun unsqueeze_if_1d :: "tensor \<Rightarrow> matrix" where
  "unsqueeze_if_1d (Vec v) = [v]"
| "unsqueeze_if_1d (Mat m) = m"

text \<open>\<^verbatim>\<open>torch.eye(n)\<close> and the product of a scalar and a tensor.\<close>

definition eye :: "nat \<Rightarrow> matrix" where
  "eye n = map (\<lambda>i. map (\<lambda>j. if i = j then 1 else 0) [0..<n]) [0..<n]"

definition scale :: "real \<Rightarrow> matrix \<Rightarrow> matrix" where
  "scale c m = map (map (\<lambda>v. c * v)) m"

text \<open>
  Broadcasting of two 2-D tensors: in each dimension the extents are equal or one of
  them is 1, else torch raises a RuntimeError.
\<close>

definition bdim :: "nat \<Rightarrow> nat \<Rightarrow> nat option" where
  "bdim a b = (if a = b then Some a else if a = 1 then Some b
               else if b = 1 then Some a else None)"

definition expand :: "nat \<Rightarrow> nat \<Rightarrow> matrix \<Rightarrow> matrix" where
  "expand r c m =
     map (\<lambda>row. if length row = c then row else replicate c (hd row))
         (if length m = r then m else replicate r (hd m))"

definition broadcast :: "(real \<Rightarrow> real \<Rightarrow> real) \<Rightarrow> matrix \<Rightarrow> matrix \<Rightarrow> failure + matrix" where
  "broadcast f a b =
     (case bdim (length a) (length b) of
        None \<Rightarrow> Inl (Raised RuntimeError)
      | Some r \<Rightarrow>
          (case bdim (ncols a) (ncols b) of
             None \<Rightarrow> Inl (Raised RuntimeError)
           | Some c \<Rightarrow> Inr (map2 (map2 f) (expand r c a) (expand r c b))))"

text \<open>\<^verbatim>\<open>a.mm(b)\<close>: the matrix product; the inner extents must agree.\<close>

definition column :: "nat \<Rightarrow> matrix \<Rightarrow> real list" where
  "column j m = map (\<lambda>row. row ! j) m"

definition mm :: "matrix \<Rightarrow> matrix \<Rightarrow> failure + matrix" where
  "mm a b =
     (if ncols a \<noteq> length b then Inl (Raised RuntimeError)
      else Inr (map (\<lambda>row. map (\<lambda>j. sum_list (map2 (*) row (column j b))) [0..<ncols b]) a))"

text \<open>\<^verbatim>\<open>m.sum(-1, keepdim=True)\<close>\<close>

definition sum_keepdim :: "matrix \<Rightarrow> matrix" where
  "sum_keepdim m = map (\<lambda>row. [sum_list row]) m"

text \<open>\<^verbatim>\<open>m / d\<close> for a scalar \<open>d\<close>.\<close>

definition divide_by :: "matrix \<Rightarrow> real \<Rightarrow> failure + matrix" where
  "divide_by m d = (if d = 0 then Inl NonFinite else Inr (map (map (\<lambda>v. v / d)) m))"

section \<open>The angle encoding\<close>

text \<open>
  Modelled from the spec: \<open>angles.to_complex\<close> (module \<open>prob_mbrl.utils.angles\<close>) is
  not among the sources. The specification describes it as "representing an angular
  state dimension as (cos, sin) pair", and its use in \<open>CartpoleReward.forward\<close> fixes
  the layout: of a state \<open>(x, dx, theta, dtheta)\<close> encoded on dimension 2, entry 0 is
  still \<open>x\<close>, entry 3 is added to it after scaling by the pole length (the sine) and
  entry 4 gives the height (the cosine). So the encoding keeps the other dimensions in
  order and appends the sines, then the cosines, of the angle dimensions. Indexing a
  dimension the row does not have raises IndexError.
\<close>

definition to_complex_row :: "nat list \<Rightarrow> real list \<Rightarrow> real list" where
  "to_complex_row dims x =
     map snd (filter (\<lambda>(i, v). i \<notin> set dims) (enumerate 0 x))
       @ map (\<lambda>d. sin (x ! d)) dims @ map (\<lambda>d. cos (x ! d)) dims"

definition to_complex :: "matrix \<Rightarrow> nat list \<Rightarrow> failure + matrix" where
  "to_complex x dims =
     (if dims = [] then Inr x
      else if list_ex (\<lambda>row. list_ex (\<lambda>d. length row \<le> d) dims) x then Inl (Raised IndexError)
      else Inr (map (to_complex_row dims) x))"

section \<open>CartpoleReward\<close>

record CartpoleReward =
  pole_length :: real
  target :: matrix
  Q :: matrix
  R :: matrix

text \<open>
  \<open>CartpoleReward.__init__\<close>: a 1-D target is unsqueezed to one row. The pole length
  is a tensor holding one number.
\<close>

definition CartpoleReward_init :: "real \<Rightarrow> tensor \<Rightarrow> matrix \<Rightarrow> matrix \<Rightarrow> CartpoleReward" where
  "CartpoleReward_init pl tg q r =
     \<lparr>pole_length = pl, target = unsqueeze_if_1d tg, Q = q, R = r\<rparr>"

definition default_target :: tensor where
  "default_target = Vec [0, 0, pi, 0]"

definition default_Q :: matrix where
  "default_Q = scale 16 (eye 2)"

definition default_R :: matrix where
  "default_R = scale (1 / 10000) (eye 1)"

text \<open>
  The tip of the pole of every row of an encoded state:
  \<^verbatim>\<open>torch.cat([xa[:, 0, None] + pole_length * xa[:, 3, None], -pole_length * xa[:, 4, None]], dim=-1)\<close>
\<close>

definition tip_xy :: "real \<Rightarrow> matrix \<Rightarrow> failure + matrix" where
  "tip_xy lp xa =
     (if list_ex (\<lambda>row. length row \<le> 4) xa then Inl (Raised IndexError)
      else Inr (map (\<lambda>row. [row ! 0 + lp * row ! 3, - lp * row ! 4]) xa))"

text \<open>
  \<open>CartpoleReward.forward\<close>, one binding for each statement of the source. The two
  \<open>unsqueeze\<close> of lines 70 to 73 never apply, both tips being 2-D already. The
  conversions of lines 42 to 47 (to a tensor, to the device and the dtype of \<open>Q\<close>) are
  not modelled: the code computes in float32 from there on, the model over the reals.
\<close>

definition forward :: "CartpoleReward \<Rightarrow> tensor \<Rightarrow> tensor \<Rightarrow> failure + matrix" where
  "forward self x0 u0 =
     (let x = unsqueeze_if_1d x0; u = unsqueeze_if_1d u0 in
      bind_result (to_complex (target self) [2]) (\<lambda>targeta.
      bind_result (tip_xy (pole_length self) targeta) (\<lambda>target_tip_xy.
      bind_result (if ncols x \<noteq> ncols targeta then to_complex x [2] else Inr x) (\<lambda>xa.
      bind_result (tip_xy (pole_length self) xa) (\<lambda>pole_tip_xy.
      bind_result (broadcast (-) pole_tip_xy target_tip_xy) (\<lambda>delta0.
      bind_result (divide_by delta0 (2 * pole_length self)) (\<lambda>delta.
      bind_result (mm delta (Q self)) (\<lambda>dQ.
      bind_result (broadcast (*) dQ delta) (\<lambda>dQd.
      bind_result (mm u (R self)) (\<lambda>uR.
      bind_result (broadcast (*) uR u) (\<lambda>uRu.
      bind_result (broadcast (+) (sum_keepdim dQd) (sum_keepdim uRu)) (\<lambda>s.
      Inr (map (map (\<lambda>c. exp (- (0.5 * c)))) s)))))))))))))"

subsection \<open>The claim's formula\<close>

text \<open>
  The reward as the specification words it, for one state and one action: the tip of a
  pole of length \<open>lp\<close> on a cart at \<open>p\<close> with angle \<open>theta\<close>, the displacement of the
  state's tip from the target's divided by twice the pole length, the quadratic forms
  \<open>delta\<^sup>T Q delta\<close> and \<open>u\<^sup>T R u\<close>, and the cost.
\<close>

definition pole_tip :: "real \<Rightarrow> real \<Rightarrow> real \<Rightarrow> real \<times> real" where
  "pole_tip lp p theta = (p + lp * sin theta, - lp * cos theta)"

definition spec_delta :: "real \<Rightarrow> real list \<Rightarrow> real list \<Rightarrow> real list" where
  "spec_delta lp tg x =
     [(fst (pole_tip lp (x ! 0) (x ! 2)) - fst (pole_tip lp (tg ! 0) (tg ! 2))) / (2 * lp),
      (snd (pole_tip lp (x ! 0) (x ! 2)) - snd (pole_tip lp (tg ! 0) (tg ! 2))) / (2 * lp)]"

definition quad_form :: "matrix \<Rightarrow> real list \<Rightarrow> real" where
  "quad_form M v = (\<Sum>i<length v. \<Sum>j<length v. v ! i * M ! i ! j * v ! j)"

definition spec_cost :: "real \<Rightarrow> real list \<Rightarrow> matrix \<Rightarrow> matrix \<Rightarrow> real list \<Rightarrow> real list \<Rightarrow> real" where
  "spec_cost lp tg Qm Rm x u = 0.5 * (quad_form Qm (spec_delta lp tg x) + quad_form Rm u)"

section \<open>The Cartpole environment\<close>

text \<open>
  \<open>CartpoleModel\<close> is not among the sources; the environment reads its pole length
  \<open>lp\<close> (and, to render, the masses \<open>mp\<close> and \<open>mc\<close>). The model built by
  \<open>CartpoleModel()\<close> is a parameter of the constructor below.
\<close>

record CartpoleModel =
  lp :: real
  mp :: real
  mc :: real

text \<open>
  The \<open>reward_func\<close> argument: \<open>None\<close>, a callable object, or any other object.
  \<open>callable(None)\<close> is false.
\<close>

datatype ('f, 'v) reward_arg = NoneReward | CallableReward 'f | OtherReward 'v

fun callable :: "('f, 'v) reward_arg \<Rightarrow> bool" where
  "callable (CallableReward f) = True"
| "callable _ = False"

text \<open>The reward function the environment ends up with.\<close>

datatype 'f reward_func = Given 'f | Default CartpoleReward

text \<open>
  What \<open>Cartpole.__init__\<close> hands to the constructor of its base class \<open>GymEnv\<close>
  (not among the sources): the model, the reward function, the measurement noise and
  the angle dimensions. The action and observation spaces set up afterwards are
  not modelled.
\<close>

record 'f GymEnv_args =
  env_model :: CartpoleModel
  env_reward_func :: "'f reward_func"
  measurement_noise :: "real list"
  angle_dims :: "nat list"

definition Cartpole_init ::
  "CartpoleModel \<Rightarrow> CartpoleModel option \<Rightarrow> ('f, 'v) reward_arg \<Rightarrow> 'f GymEnv_args" where
  "Cartpole_init default_model model_arg reward_arg =
     (let model = (case model_arg of None \<Rightarrow> default_model | Some m \<Rightarrow> m);
          reward = (case reward_arg of
                      CallableReward f \<Rightarrow> Given f
                    | _ \<Rightarrow> Default (CartpoleReward_init (lp model) default_target default_Q default_R))
      in \<lparr>env_model = model, env_reward_func = reward,
          measurement_noise = replicate 4 0.01, angle_dims = [2]\<rparr>)"

text \<open>
  \<open>Cartpole.step\<close>. The step of the base class is not among the sources: it is the
  parameter \<open>base_step\<close>, which returns the observation, the reward, the done flag and
  the info, and leaves the environment with a new \<open>self.state\<close>; the environment is
  represented by that attribute (\<open>None\<close> before a reset). Reading an entry a list does
  not have raises IndexError, subscripting \<open>None\<close> raises TypeError.
\<close>

definition py_get :: "'a list \<Rightarrow> nat \<Rightarrow> exc + 'a" where
  "py_get xs i = (if i < length xs then Inr (xs ! i) else Inl IndexError)"

definition subscript_state :: "real list option \<Rightarrow> nat \<Rightarrow> exc + real" where
  "subscript_state st i = (case st of None \<Rightarrow> Inl TypeError | Some s \<Rightarrow> py_get s i)"

text \<open>\<^verbatim>\<open>self.state[i] < lim[0] or self.state[i] > lim[1]\<close>, evaluated left to right.\<close>

definition outside :: "real list option \<Rightarrow> nat \<Rightarrow> real list \<Rightarrow> exc + bool" where
  "outside st i limits =
     bind_result (subscript_state st i) (\<lambda>v.
     bind_result (py_get limits 0) (\<lambda>lo.
     if v < lo then Inr True
     else bind_result (subscript_state st i) (\<lambda>v'.
          bind_result (py_get limits 1) (\<lambda>hi. Inr (v' > hi)))))"

definition default_x_lim :: "real list" where
  "default_x_lim = [- 3.5, 3.5]"

definition default_ang_lim :: "real list" where
  "default_ang_lim = [- 4 * pi, 4 * pi]"

definition Cartpole_step ::
  "('a \<Rightarrow> real list option \<Rightarrow> exc + (('o \<times> real \<times> bool \<times> 'i) \<times> real list option))
   \<Rightarrow> 'a \<Rightarrow> real list \<Rightarrow> real list \<Rightarrow> real list option
   \<Rightarrow> exc + (('o \<times> real \<times> bool \<times> 'i) \<times> real list option)" where
  "Cartpole_step base_step action x_lim ang_lim self_state =
     bind_result (base_step action self_state) (\<lambda>((state, reward, done, info), self_state').
     bind_result (outside self_state' 0 x_lim) (\<lambda>out_x.
     let done = (if out_x then True else done) in
     bind_result (outside self_state' 2 ang_lim) (\<lambda>out_ang.
     let done = (if out_ang then True else done) in
     Inr ((state, reward, done, info), self_state'))))"

section \<open>batch\_jacobian\<close>

text \<open>
  \<open>torch.autograd.grad(y, x, grad_outputs)\<close> is library code. The model takes the
  function \<open>f\<close> row by row (a function of one sample, applied to every row of a batch)
  together with its Jacobian \<open>Jf\<close> at a point, one row per output and one column per
  input. For \<open>y = f(x)\<close> computed row by row, the gradient of \<open>y\<close> weighted by
  \<open>grad_outputs\<close> has as row \<open>a\<close> the product of row \<open>a\<close> of \<open>grad_outputs\<close> and the
  Jacobian at row \<open>a\<close> of \<open>x\<close>. torch first checks that \<open>grad_outputs\<close> has the shape
  of \<open>y\<close> and raises a RuntimeError ("Mismatch in shape") otherwise. (Releases before
  1.2 raised a RuntimeError only when the shape of \<open>y\<close> could not be expanded to that
  of \<open>grad_outputs\<close>, and summed the weights otherwise; the two agree unless \<open>y\<close> has
  an extent of 1.) The result is a tuple with one tensor for the one input. The output
  is taken to be computed from the input by differentiable operations; for an output
  that the autograd graph does not connect to the input torch raises a RuntimeError,
  which the model leaves out.
\<close>

definition vecmat :: "real list \<Rightarrow> matrix \<Rightarrow> real list" where
  "vecmat g J = map (\<lambda>b. sum_list (map2 (*) g (column b J))) [0..<ncols J]"

definition autograd_grad ::
  "(real list \<Rightarrow> matrix) \<Rightarrow> matrix \<Rightarrow> matrix \<Rightarrow> matrix \<Rightarrow> failure + matrix list" where
  "autograd_grad Jf y x grad_outputs =
     (if length grad_outputs = length y \<and> ncols grad_outputs = ncols y
      then Inr [map2 (\<lambda>g row. vecmat g (Jf row)) grad_outputs x]
      else Inl (Raised RuntimeError))"

text \<open>\<^verbatim>\<open>x.repeat(k, 1)\<close>, \<^verbatim>\<open>x.shape[-1]\<close> and \<^verbatim>\<open>f(x)\<close> for a tensor of one or two dimensions.\<close>

fun repeat_rows :: "nat \<Rightarrow> tensor \<Rightarrow> matrix" where
  "repeat_rows k (Vec v) = replicate k v"
| "repeat_rows k (Mat m) = concat (replicate k m)"

fun last_dim :: "tensor \<Rightarrow> nat" where
  "last_dim (Vec v) = length v"
| "last_dim (Mat m) = ncols m"

fun apply_rows :: "(real list \<Rightarrow> real list) \<Rightarrow> tensor \<Rightarrow> tensor" where
  "apply_rows f (Vec v) = Vec (f v)"
| "apply_rows f (Mat m) = Mat (map f m)"

definition batch_jacobian ::
  "(real list \<Rightarrow> real list) \<Rightarrow> (real list \<Rightarrow> matrix) \<Rightarrow> tensor \<Rightarrow> nat option
   \<Rightarrow> failure + matrix list" where
  "batch_jacobian f Jf x out_dims_arg =
     (let out_dims = (case out_dims_arg of
                        None \<Rightarrow> last_dim (apply_rows f x)
                      | Some d \<Rightarrow> d);
          x_rep = repeat_rows out_dims x;
          y_rep = map f x_rep
      in autograd_grad Jf y_rep x_rep (eye (last_dim x)))"

section \<open>load\_checkpoint\<close>

text \<open>
  The \<open>path\<close> argument is a \<open>str\<close>, a \<open>bytes\<close> or \<open>None\<close>. \<open>os.path.join\<close> of a
  \<open>str\<close> and a \<open>str\<close> component (which here never starts with a slash) appends the
  component, after a slash unless the path is empty or ends with one. Joining a
  \<open>bytes\<close> path with a \<open>str\<close> component, or \<open>None\<close> with anything, raises TypeError.
\<close>

datatype path_arg = StrPath string | BytesPath string | NonePath

fun os_path_join :: "path_arg \<Rightarrow> string \<Rightarrow> exc + string" where
  "os_path_join (StrPath p) name =
     Inr (if p = [] \<or> last p = CHR ''/'' then p @ name else p @ ''/'' @ name)"
| "os_path_join (BytesPath p) name = Inl TypeError"
| "os_path_join NonePath name = Inl TypeError"

text \<open>\<^verbatim>\<open>msg.format(a)\<close> with \<^verbatim>\<open>msg = "Unable to load dynamics model parameters at {}"\<close>.\<close>

fun str_of_path :: "path_arg \<Rightarrow> string" where
  "str_of_path (StrPath p) = p"
| "str_of_path (BytesPath p) = ''b'' @ [CHR 0x27] @ p @ [CHR 0x27]"
| "str_of_path NonePath = ''None''"

definition msg_format :: "string \<Rightarrow> string" where
  "msg_format a = ''Unable to load dynamics model parameters at '' @ a"

text \<open>
  The world around the function: \<open>torch.load\<close> of a file name, and the \<open>load\<close> methods
  of the four objects. A method returns the exception it raised, if any, and the
  object as it left it. Warnings are collected in the order they are issued
  (\<open>warnings.warn\<close> under the default filter, which does not raise).
\<close>

record ('prm, 'd, 'p, 'v, 'e) ckpt_env =
  torch_load :: "string \<Rightarrow> exc + 'prm"
  dyn_load :: "'prm \<Rightarrow> 'd \<Rightarrow> exc option \<times> 'd"
  pol_load :: "'prm \<Rightarrow> 'p \<Rightarrow> exc option \<times> 'p"
  val_load :: "'prm \<Rightarrow> 'v \<Rightarrow> exc option \<times> 'v"
  exp_load :: "string \<Rightarrow> 'e \<Rightarrow> exc option \<times> 'e"

record ('d, 'p, 'v, 'e) ckpt_state =
  dyn_obj :: 'd
  pol_obj :: 'p
  val_obj :: "'v option"
  exp_obj :: 'e
  warnings :: "string list"

definition warn :: "string \<Rightarrow> ('d, 'p, 'v, 'e) ckpt_state \<Rightarrow> exc option \<times> ('d, 'p, 'v, 'e) ckpt_state" where
  "warn m s = (None, s\<lparr>warnings := warnings s @ [m]\<rparr>)"

text \<open>
  \<^verbatim>\<open>try: ... except Exception: handler\<close>: the handler runs for an exception that derives
  from \<open>Exception\<close>; any other one propagates.
\<close>

definition except_Exception :: "exc option \<times> 's \<Rightarrow> ('s \<Rightarrow> exc option \<times> 's) \<Rightarrow> exc option \<times> 's" where
  "except_Exception r handler =
     (case r of
        (None, s) \<Rightarrow> (None, s)
      | (Some e, s) \<Rightarrow> if is_Exception e then handler s else (Some e, s))"

text \<open>Statements in sequence: an exception that propagates ends the function.\<close>

definition and_then :: "exc option \<times> 's \<Rightarrow> ('s \<Rightarrow> exc option \<times> 's) \<Rightarrow> exc option \<times> 's" where
  "and_then r next_stmt = (case r of (None, s) \<Rightarrow> next_stmt s | (Some e, s) \<Rightarrow> (Some e, s))"

text \<open>
  A local variable of a Python function is unbound until its first assignment; reading
  it then raises UnboundLocalError.
\<close>

fun read_local :: "'a option \<Rightarrow> exc + 'a" where
  "read_local None = Inl UnboundLocalError"
| "read_local (Some v) = Inr v"

text \<open>
  The four blocks of \<open>load_checkpoint\<close>. In the first two the handler formats the
  message from \<open>path\<close>. In the last two it formats it from \<open>val_path\<close> and
  \<open>exp_path\<close>, locals assigned inside the \<open>try\<close> by the \<open>os.path.join\<close>.
\<close>

definition dyn_block ::
  "('prm, 'd, 'p, 'v, 'e) ckpt_env \<Rightarrow> path_arg \<Rightarrow> ('d, 'p, 'v, 'e) ckpt_state
   \<Rightarrow> exc option \<times> ('d, 'p, 'v, 'e) ckpt_state" where
  "dyn_block env path s =
     except_Exception
       (case os_path_join path ''latest_dynamics.pth.tar'' of
          Inl e \<Rightarrow> (Some e, s)
        | Inr file \<Rightarrow>
            (case torch_load env file of
               Inl e \<Rightarrow> (Some e, s)
             | Inr dyn_params \<Rightarrow>
                 (case dyn_load env dyn_params (dyn_obj s) of (r, d) \<Rightarrow> (r, s\<lparr>dyn_obj := d\<rparr>))))
       (warn (msg_format (str_of_path path)))"

definition pol_block ::
  "('prm, 'd, 'p, 'v, 'e) ckpt_env \<Rightarrow> path_arg \<Rightarrow> ('d, 'p, 'v, 'e) ckpt_state
   \<Rightarrow> exc option \<times> ('d, 'p, 'v, 'e) ckpt_state" where
  "pol_block env path s =
     except_Exception
       (case os_path_join path ''latest_policy.pth.tar'' of
          Inl e \<Rightarrow> (Some e, s)
        | Inr file \<Rightarrow>
            (case torch_load env file of
               Inl e \<Rightarrow> (Some e, s)
             | Inr pol_params \<Rightarrow>
                 (case pol_load env pol_params (pol_obj s) of (r, p) \<Rightarrow> (r, s\<lparr>pol_obj := p\<rparr>))))
       (warn (msg_format (str_of_path path)))"

definition val_block ::
  "('prm, 'd, 'p, 'v, 'e) ckpt_env \<Rightarrow> path_arg \<Rightarrow> ('d, 'p, 'v, 'e) ckpt_state
   \<Rightarrow> exc option \<times> ('d, 'p, 'v, 'e) ckpt_state" where
  "val_block env path s =
     (case val_obj s of
        None \<Rightarrow> (None, s)
      | Some val \<Rightarrow>
          (let (val_path, r) =
                 (case os_path_join path ''latest_critic.pth.tar'' of
                    Inl e \<Rightarrow> (None, (Some e, s))
                  | Inr file \<Rightarrow>
                      (Some file,
                       (case torch_load env file of
                          Inl e \<Rightarrow> (Some e, s)
                        | Inr val_params \<Rightarrow>
                            (case val_load env val_params val of
                               (r, v) \<Rightarrow> (r, s\<lparr>val_obj := Some v\<rparr>)))))
           in except_Exception r
                (\<lambda>s'. case read_local val_path of
                         Inl e \<Rightarrow> (Some e, s')
                       | Inr file \<Rightarrow> warn (msg_format file) s')))"

definition exp_block ::
  "('prm, 'd, 'p, 'v, 'e) ckpt_env \<Rightarrow> path_arg \<Rightarrow> ('d, 'p, 'v, 'e) ckpt_state
   \<Rightarrow> exc option \<times> ('d, 'p, 'v, 'e) ckpt_state" where
  "exp_block env path s =
     (let (exp_path, r) =
            (case os_path_join path ''experience.pth.tar'' of
               Inl e \<Rightarrow> (None, (Some e, s))
             | Inr file \<Rightarrow>
                 (Some file,
                  (case exp_load env file (exp_obj s) of (r, x) \<Rightarrow> (r, s\<lparr>exp_obj := x\<rparr>))))
      in except_Exception r
           (\<lambda>s'. case read_local exp_path of
                    Inl e \<Rightarrow> (Some e, s')
                  | Inr file \<Rightarrow> warn (msg_format file) s'))"

definition load_checkpoint ::
  "('prm, 'd, 'p, 'v, 'e) ckpt_env \<Rightarrow> path_arg \<Rightarrow> ('d, 'p, 'v, 'e) ckpt_state
   \<Rightarrow> exc option \<times> ('d, 'p, 'v, 'e) ckpt_state" where
  "load_checkpoint env path s =
     and_then (and_then (and_then (dyn_block env path s) (pol_block env path))
                        (val_block env path))
              (exp_block env path)"

section \<open>train\_model\<close>

text \<open>
  The data loader: \<open>TensorDataset(X, Y)\<close> pairs the samples, \<open>shuffle=True\<close> makes
  every new iterator run through the dataset in a fresh random order, and the batches
  are consecutive runs of \<open>batch_size\<close> samples of that order (the last one may be
  shorter). The random orders are a parameter: \<open>shuffle k d\<close> is the order of the
  iterator constructed after \<open>k\<close> earlier ones.
\<close>

record ('x, 'y) DataLoader =
  dataset :: "('x \<times> 'y) list"
  batch_size :: nat
  shuffle :: "nat \<Rightarrow> ('x \<times> 'y) list \<Rightarrow> ('x \<times> 'y) list"

function batches :: "nat \<Rightarrow> 'a list \<Rightarrow> 'a list list" where
  "batches k xs = (if k = 0 \<or> xs = [] then [] else take k xs # batches k (drop k xs))"
  by pat_completeness auto
termination
  by (relation "measure (\<lambda>(k, xs). length xs)") auto

declare batches.simps [simp del]

text \<open>\<^verbatim>\<open>iter(dataloader)\<close>: the batches still to come.\<close>

definition iter :: "('x, 'y) DataLoader \<Rightarrow> nat \<Rightarrow> ('x \<times> 'y) list list" where
  "iter dl k = batches (batch_size dl) (shuffle dl k (dataset dl))"

text \<open>\<^verbatim>\<open>next(it)\<close>: the next batch and the iterator advanced, or StopIteration.\<close>

fun py_next :: "'a list \<Rightarrow> exc + ('a \<times> 'a list)" where
  "py_next [] = Inl StopIteration"
| "py_next (b # bs) = Inr (b, bs)"

text \<open>
  \<open>next_batch\<close>, the closure inside \<open>train_model\<close>:
  \<^verbatim>\<open>
    def next_batch():
        try:
            x, y = next(data_iter)
        except BaseException:
            data_iter = iter(dataloader)
            x, y = next(data_iter)
        return x, y
  \<close>
  The body assigns \<open>data_iter\<close> and declares it neither \<open>nonlocal\<close> nor \<open>global\<close>, so
  in Python the name is a local variable of \<open>next_batch\<close>, unbound when a call starts;
  the \<open>data_iter\<close> of \<open>train_model\<close> is another variable, which the closure never
  reads or writes. \<open>except BaseException\<close> catches every exception. The function
  takes and returns the number of iterators constructed so far.
\<close>

definition next_batch :: "('x, 'y) DataLoader \<Rightarrow> nat \<Rightarrow> exc + (('x \<times> 'y) list \<times> nat)" where
  "next_batch dataloader k =
     (let data_iter = None in
      case bind_result (read_local data_iter) py_next of
        Inr (xy, rest) \<Rightarrow> Inr (xy, k)
      | Inl e \<Rightarrow>
          (let data_iter = Some (iter dataloader k) in
           bind_result (bind_result (read_local data_iter) py_next)
             (\<lambda>(xy, rest). Inr (xy, Suc k))))"

text \<open>
  The model and the optimizer. \<open>log_prob p training resample b\<close> are the
  log-likelihoods \<open>model(x, resample=resample)[0].log_prob(y)\<close> of the batch \<open>b\<close>
  under the parameters \<open>p\<close>; \<open>opt_step\<close> is \<open>loss.backward(); opt.step()\<close> after
  \<open>opt.zero_grad()\<close>: one gradient step on the loss, given as a function of the
  parameters, from the optimizer's state and the parameters to the new ones.
\<close>

record ('p, 'o, 'x, 'y) learner =
  log_prob :: "'p \<Rightarrow> bool \<Rightarrow> bool \<Rightarrow> ('x \<times> 'y) list \<Rightarrow> real list"
  regularization_loss :: "'p \<Rightarrow> real"
  opt_step :: "('p \<Rightarrow> real) \<Rightarrow> 'o \<times> 'p \<Rightarrow> 'o \<times> 'p"

text \<open>
  One gradient step as the loop took it: the batch, the parameters before the step,
  the loss function handed to the optimizer and its value at those parameters.
\<close>

record ('p, 'x, 'y) grad_step =
  batch_drawn :: "('x \<times> 'y) list"
  params_before :: 'p
  loss_fn :: "'p \<Rightarrow> real"
  loss_value :: real

text \<open>
  The state of a run: the mode of the model (\<open>model.train()\<close>, \<open>model.eval()\<close>), its
  parameters, the optimizer's state, the number of data loader iterators constructed so
  far, and the history of the gradient steps taken.
\<close>

record ('p, 'o, 'x, 'y) train_state =
  training :: bool
  params :: 'p
  opt_state :: 'o
  iters_made :: nat
  history :: "('p, 'x, 'y) grad_step list"

definition mean :: "real list \<Rightarrow> real" where
  "mean l = sum_list l / real (length l)"

text \<open>The body of the loop; \<open>n_samples\<close> is \<open>X.shape[0]\<close>.\<close>

definition train_iteration ::
  "('p, 'o, 'x, 'y) learner \<Rightarrow> ('x, 'y) DataLoader \<Rightarrow> nat \<Rightarrow> bool
   \<Rightarrow> ('p, 'o, 'x, 'y) train_state \<Rightarrow> exc + ('p, 'o, 'x, 'y) train_state" where
  "train_iteration L dataloader n_samples resample st =
     bind_result (next_batch dataloader (iters_made st)) (\<lambda>(xy, k).
       let loss = (\<lambda>p. - mean (log_prob L p (training st) resample xy)
                        + regularization_loss L p / real n_samples);
           (o', p') = opt_step L loss (opt_state st, params st)
       in Inr (st\<lparr>params := p', opt_state := o', iters_made := k,
                  history := history st @
                    [\<lparr>batch_drawn = xy, params_before = params st,
                      loss_fn = loss, loss_value = loss (params st)\<rparr>]\<rparr>))"

fun train_loop ::
  "('p, 'o, 'x, 'y) learner \<Rightarrow> ('x, 'y) DataLoader \<Rightarrow> nat \<Rightarrow> bool \<Rightarrow> nat
   \<Rightarrow> ('p, 'o, 'x, 'y) train_state \<Rightarrow> exc + ('p, 'o, 'x, 'y) train_state" where
  "train_loop L dataloader n_samples resample 0 st = Inr st"
| "train_loop L dataloader n_samples resample (Suc n) st =
     bind_result (train_iteration L dataloader n_samples resample st)
       (train_loop L dataloader n_samples resample n)"

text \<open>
  \<open>train_model\<close>. \<open>TensorDataset\<close> asserts that \<open>X\<close> and \<open>Y\<close> have as many samples,
  \<open>DataLoader\<close> with \<open>shuffle=True\<close> raises ValueError for a dataset without samples
  and for a batch size that is not positive, and line 249 constructs the first
  iterator. The progress bar and the garbage collection every 500 iterations are not
  modelled.
\<close>

definition train_model ::
  "('p, 'o, 'x, 'y) learner \<Rightarrow> (nat \<Rightarrow> ('x \<times> 'y) list \<Rightarrow> ('x \<times> 'y) list)
   \<Rightarrow> 'p \<Rightarrow> 'o \<Rightarrow> 'x list \<Rightarrow> 'y list \<Rightarrow> nat \<Rightarrow> bool \<Rightarrow> nat
   \<Rightarrow> exc + ('p, 'o, 'x, 'y) train_state" where
  "train_model L shuffle_order p0 opt X Y n_iters resample bsize =
     (let st = \<lparr>training = True, params = p0, opt_state = opt, iters_made = 0, history = []\<rparr>
      in if length X \<noteq> length Y then Inl AssertionError
         else if X = [] \<or> bsize = 0 then Inl ValueError
         else
           let dataloader = \<lparr>dataset = zip X Y, batch_size = bsize, shuffle = shuffle_order\<rparr>;
               data_iter = iter dataloader (iters_made st);
               st = st\<lparr>iters_made := Suc (iters_made st)\<rparr>
           in bind_result (train_loop L dataloader (length X) resample n_iters st)
                (\<lambda>st'. Inr (st'\<lparr>training := False\<rparr>)))"

section \<open>tqdm\_joblib\<close>

text \<open>
  The class bound to \<open>joblib.parallel.BatchCompletionCallBack\<close>: joblib's own, or the
  subclass \<open>TqdmBatchCompletionCallback\<close> that a \<open>tqdm_joblib\<close> derived from the class it
  found, closing over its progress bar. Progress bars are named by numbers.
\<close>

datatype callback_class = JoblibCallBack | TqdmBatchCompletionCallback callback_class nat

text \<open>
  A progress bar is its counter \<open>n\<close> and its flag \<open>disable\<close>, which is set when the
  bar is constructed with \<open>disable=True\<close> and by \<open>close\<close>. tqdm is library code:
  \<open>update(n)\<close> returns at once on a disabled bar and adds \<open>n\<close> to the counter
  otherwise; \<open>close()\<close> returns at once on a disabled bar and disables the bar
  otherwise, so a bar is disabled after every \<open>close\<close>.
\<close>

record tqdm_bar =
  bar_n :: int
  bar_disable :: bool

text \<open>
  The state: the class now bound, the progress bars, and the batch sizes joblib's own
  callback has been called with.
\<close>

record joblib_state =
  BatchCompletionCallBack :: callback_class
  bars :: "nat \<Rightarrow> tqdm_bar"
  completed :: "int list"

definition tqdm_update :: "nat \<Rightarrow> int \<Rightarrow> joblib_state \<Rightarrow> joblib_state" where
  "tqdm_update t k w =
     (if bar_disable (bars w t) then w
      else w\<lparr>bars := (bars w)(t := (bars w t)\<lparr>bar_n := bar_n (bars w t) + k\<rparr>)\<rparr>)"

definition tqdm_close :: "nat \<Rightarrow> joblib_state \<Rightarrow> joblib_state" where
  "tqdm_close t w =
     (if bar_disable (bars w t) then w
      else w\<lparr>bars := (bars w)(t := (bars w t)\<lparr>bar_disable := True\<rparr>)\<rparr>)"

text \<open>
  \<open>__call__\<close> of an instance of the class, with the instance's \<open>batch_size\<close>: the
  subclass updates its bar and calls \<open>super().__call__\<close>.
\<close>

fun call_callback :: "callback_class \<Rightarrow> int \<Rightarrow> joblib_state \<Rightarrow> joblib_state" where
  "call_callback JoblibCallBack bs w = w\<lparr>completed := completed w @ [bs]\<rparr>"
| "call_callback (TqdmBatchCompletionCallback parent tqdm_object) bs w =
     call_callback parent bs (tqdm_update tqdm_object bs w)"

text \<open>
  The context manager around a body (the \<open>with\<close> block), which gets the yielded bar,
  runs on the state and returns a value or raises. The \<open>finally\<close> clause runs in both
  cases, and an exception of the body is raised again after it.
\<close>

definition tqdm_joblib ::
  "nat \<Rightarrow> (nat \<Rightarrow> joblib_state \<Rightarrow> (exc + 'a) \<times> joblib_state) \<Rightarrow> joblib_state
   \<Rightarrow> (exc + 'a) \<times> joblib_state" where
  "tqdm_joblib tqdm_object body w =
     (let old_batch_callback = BatchCompletionCallBack w;
          w1 = w\<lparr>BatchCompletionCallBack :=
                   TqdmBatchCompletionCallback old_batch_callback tqdm_object\<rparr>;
          finally_clause = (\<lambda>w'. tqdm_close tqdm_object
                            (w'\<lparr>BatchCompletionCallBack := old_batch_callback\<rparr>))
      in case body tqdm_object w1 of
           (Inr v, w2) \<Rightarrow> (Inr v, finally_clause w2)
         | (Inl e, w2) \<Rightarrow> (Inl e, finally_clause w2))"

text \<open>
  An example: a state whose bars were all constructed with \<open>disable=True\<close>, and a body
  during which one batch of four tasks completes, so that joblib calls an instance of
  the class bound at that moment with batch size 4, and which then returns.
\<close>

definition disabled_bars_state :: joblib_state where
  "disabled_bars_state =
     \<lparr>BatchCompletionCallBack = JoblibCallBack,
      bars = (\<lambda>t. \<lparr>bar_n = 0, bar_disable = True\<rparr>), completed = []\<rparr>"

definition one_batch_body :: "nat \<Rightarrow> joblib_state \<Rightarrow> (exc + unit) \<times> joblib_state" where
  "one_batch_body tqdm_object w = (Inr (), call_callback (BatchCompletionCallBack w) 4 w)"

section \<open>Notions used in the statements\<close>

text \<open>
  The loss of the training loop as the specification words it: minus the mean
  log-likelihood of the mini-batch under the model in training mode, plus the
  regularization loss divided by the number of samples.
\<close>

definition spec_loss ::
  "('p, 'o, 'x, 'y) learner \<Rightarrow> nat \<Rightarrow> bool \<Rightarrow> ('x \<times> 'y) list \<Rightarrow> 'p \<Rightarrow> real" where
  "spec_loss L n_samples resample b p =
     - (sum_list (log_prob L p True resample b) / real (length (log_prob L p True resample b)))
     + regularization_loss L p / real n_samples"

text \<open>The first batch of the iterator constructed after \<open>k\<close> earlier ones.\<close>

definition drawn :: "('x, 'y) DataLoader \<Rightarrow> nat \<Rightarrow> ('x \<times> 'y) list" where
  "drawn dl k = take (batch_size dl) (shuffle dl k (dataset dl))"

text \<open>The optimizer's state and the parameters after one recorded gradient step.\<close>

definition step_fn ::
  "('p, 'o, 'x, 'y) learner \<Rightarrow> 'o \<times> 'p \<Rightarrow> ('p, 'x, 'y) grad_step \<Rightarrow> 'o \<times> 'p" where
  "step_fn L s g = opt_step L (loss_fn g) s"

text \<open>
  A world in which \<open>torch.load\<close> and the \<open>load\<close> methods raise nothing but
  exceptions that derive from \<open>Exception\<close>.
\<close>

definition raises_only_Exception :: "('prm, 'd, 'p, 'v, 'e) ckpt_env \<Rightarrow> bool" where
  "raises_only_Exception env \<longleftrightarrow>
     (\<forall>fname e. torch_load env fname = Inl e \<longrightarrow> is_Exception e)
   \<and> (\<forall>prm d e d'. dyn_load env prm d = (Some e, d') \<longrightarrow> is_Exception e)
   \<and> (\<forall>prm p e p'. pol_load env prm p = (Some e, p') \<longrightarrow> is_Exception e)
   \<and> (\<forall>prm v e v'. val_load env prm v = (Some e, v') \<longrightarrow> is_Exception e)
   \<and> (\<forall>fname x e x'. exp_load env fname x = (Some e, x') \<longrightarrow> is_Exception e)"

section \<open>Properties of CartpoleReward.forward\<close>

lemma bind_result_simps [simp]:
  "bind_result (Inr v) f = f v" "bind_result (Inl e) f = Inl e"
  by (simp_all add: bind_result_def)

lemma sum_list_map2_times:
  "length xs = length ys \<Longrightarrow> sum_list (map2 (*) xs ys) = (\<Sum>i<length xs. xs ! i * (ys ! i :: real))"
proof (induction xs ys rule: list_induct2)
  case Nil
  then show ?case by simp
next
  case (Cons x xs y ys)
  then show ?case by (simp add: sum.lessThan_Suc_shift del: sum.lessThan_Suc)
qed

lemma ncols_square:
  "length M = n \<Longrightarrow> \<forall>row\<in>set M. length row = n \<Longrightarrow> 0 < n \<Longrightarrow> ncols M = n"
  by (cases M) (auto simp: ncols_def)

lemma mm_row:
  assumes "length M = length v" "\<forall>row\<in>set M. length row = length v" "v \<noteq> []"
  shows "mm [v] M = Inr [map (\<lambda>j. sum_list (map2 (*) v (column j M))) [0..<length v]]"
  using assms ncols_square[of M "length v"] by (simp add: mm_def ncols_def)

lemma broadcast_rows: "length a = length b \<Longrightarrow> broadcast f [a] [b] = Inr [map2 f a b]"
  by (simp add: broadcast_def bdim_def ncols_def expand_def)

text \<open>
  The product \<open>v.mm(M) * v\<close> summed over the last dimension is the quadratic form
  \<open>v\<^sup>T M v\<close>.
\<close>

lemma quad_value:
  assumes "length M = length v" "\<forall>row\<in>set M. length row = length v"
  shows "sum_list (map2 (*) (map (\<lambda>j. sum_list (map2 (*) v (column j M))) [0..<length v]) v)
         = quad_form M v"
proof -
  have col: "sum_list (map2 (*) v (column j M)) = (\<Sum>i<length v. v ! i * M ! i ! j)" for j
    using assms(1) by (simp add: sum_list_map2_times column_def)
  have "sum_list (map2 (*) (map (\<lambda>j. sum_list (map2 (*) v (column j M))) [0..<length v]) v)
      = (\<Sum>j<length v. (\<Sum>i<length v. v ! i * M ! i ! j) * v ! j)"
    by (simp add: sum_list_map2_times col)
  also have "\<dots> = (\<Sum>j<length v. \<Sum>i<length v. v ! i * M ! i ! j * v ! j)"
    by (simp add: sum_distrib_right)
  also have "\<dots> = quad_form M v"
    unfolding quad_form_def by (rule sum.swap)
  finally show ?thesis .
qed

lemma quad_term:
  assumes "length M = length v" "\<forall>row\<in>set M. length row = length v" "v \<noteq> []"
  shows "bind_result (mm [v] M) (\<lambda>vM. bind_result (broadcast (*) vM [v]) f)
         = f [map2 (*) (map (\<lambda>j. sum_list (map2 (*) v (column j M))) [0..<length v]) v]"
  by (simp add: mm_row[OF assms] broadcast_rows)

lemma forward_value:
  assumes "length x = 4" "length tg = 4" "pl \<noteq> 0"
      and "length Qm = 2" "\<forall>row\<in>set Qm. length row = 2"
      and "length Rm = length u" "\<forall>row\<in>set Rm. length row = length u" "u \<noteq> []"
  shows "forward (CartpoleReward_init pl (Vec tg) Qm Rm) (Vec x) (Vec u)
         = Inr [[exp (- spec_cost pl tg Qm Rm x u)]]"
proof -
  obtain x0 x1 x2 x3 where x: "x = [x0, x1, x2, x3]"
    using assms(1) by (auto simp: length_Suc_conv eval_nat_numeral)
  obtain t0 t1 t2 t3 where tg: "tg = [t0, t1, t2, t3]"
    using assms(2) by (auto simp: length_Suc_conv eval_nat_numeral)
  have d: "length Qm = length (spec_delta pl tg x)"
    "\<forall>row\<in>set Qm. length row = length (spec_delta pl tg x)"
    "spec_delta pl tg x \<noteq> []"
    using assms(4,5) by (simp_all add: spec_delta_def)
  have "forward (CartpoleReward_init pl (Vec tg) Qm Rm) (Vec x) (Vec u)
      = bind_result (mm [spec_delta pl tg x] Qm) (\<lambda>dQ.
        bind_result (broadcast (*) dQ [spec_delta pl tg x]) (\<lambda>dQd.
        bind_result (mm [u] Rm) (\<lambda>uR.
        bind_result (broadcast (*) uR [u]) (\<lambda>uRu.
        bind_result (broadcast (+) (sum_keepdim dQd) (sum_keepdim uRu)) (\<lambda>s.
        Inr (map (map (\<lambda>c. exp (- (0.5 * c)))) s))))))"
    using assms(3)
    by (simp add: x tg forward_def CartpoleReward_init_def to_complex_def to_complex_row_def
        tip_xy_def Let_def ncols_def broadcast_rows divide_by_def spec_delta_def pole_tip_def)
  also have "\<dots> = Inr [[exp (- spec_cost pl tg Qm Rm x u)]]"
    by (simp add: quad_term[OF d] quad_term[OF assms(6,7,8)] sum_keepdim_def
        quad_value[OF d(1,2)] quad_value[OF assms(6,7)] broadcast_rows spec_cost_def)
  finally show ?thesis .
qed

lemma default_Q_eq: "default_Q = [[16, 0], [0, 16]]"
  by (simp add: default_Q_def eye_def scale_def eval_nat_numeral)

lemma default_R_eq: "default_R = [[1 / 10000]]"
  by (simp add: default_R_def eye_def scale_def)

text \<open>
  Claim C1. For a state \<open>x\<close> of four entries and an action \<open>u\<close>, with weights \<open>Q\<close>
  (2 by 2) and \<open>R\<close> (square, of the size of the action), a target of four entries and
  a pole length other than zero, \<open>forward\<close> returns \<open>exp (- cost)\<close>, where
  \<open>cost = 0.5 * (delta\<^sup>T Q delta + u\<^sup>T R u)\<close> and \<open>delta\<close> is the displacement between
  the tip of the pole, \<open>(x[0] + pole_length * sin theta, - pole_length * cos theta)\<close>
  with \<open>theta = x[2]\<close>, and the tip of the target's pole, divided by twice the pole
  length.
\<close>

theorem forward_is_exp_neg_cost:
  assumes "length x = 4" "length tg = 4" "pl \<noteq> 0"
      and "length Qm = 2" "\<forall>row\<in>set Qm. length row = 2"
      and "length Rm = length u" "\<forall>row\<in>set Rm. length row = length u" "u \<noteq> []"
  shows "forward (CartpoleReward_init pl (Vec tg) Qm Rm) (Vec x) (Vec u)
         = Inr [[exp (- (0.5 * (quad_form Qm (spec_delta pl tg x) + quad_form Rm u)))]]"
  using forward_value[OF assms] by (simp add: spec_cost_def)

theorem forward_is_exp_neg_cost_witness:
  "forward (CartpoleReward_init (1 / 2) default_target default_Q default_R)
     (Vec [0, 0, 0, 0]) (Vec [0]) = Inr [[exp (- 8)]]"
  using forward_is_exp_neg_cost[of "[0, 0, 0, 0]" "[0, 0, pi, 0]" "1 / 2" default_Q default_R "[0]"]
  by (simp add: default_target_def default_Q_eq default_R_eq quad_form_def spec_delta_def
      pole_tip_def eval_nat_numeral)

text \<open>
  A batch of one state and one action gives the same reward, and so does a state
  handed over already encoded (five entries, as many as the encoded target has).
\<close>

lemma forward_unsqueeze: "forward self (Vec x) (Vec u) = forward self (Mat [x]) (Mat [u])"
  by (simp add: forward_def)

lemma forward_encoded_state:
  assumes "length x = 4" "length tg = 4"
  shows "forward (CartpoleReward_init pl (Vec tg) Qm Rm) (Vec (to_complex_row [2] x)) u
         = forward (CartpoleReward_init pl (Vec tg) Qm Rm) (Vec x) u"
proof -
  obtain x0 x1 x2 x3 where x: "x = [x0, x1, x2, x3]"
    using assms(1) by (auto simp: length_Suc_conv eval_nat_numeral)
  obtain t0 t1 t2 t3 where tg: "tg = [t0, t1, t2, t3]"
    using assms(2) by (auto simp: length_Suc_conv eval_nat_numeral)
  show ?thesis
    by (simp add: x tg forward_def CartpoleReward_init_def to_complex_def to_complex_row_def
        ncols_def Let_def)
qed

subsection \<open>Exact arithmetic\<close>

text \<open>
  The lemmas of this subsection are about the reward computed over the reals. The code
  computes in float32 (\<open>forward\<close> casts its arguments to the dtype of \<open>Q\<close>), which the
  model does not represent, and rounding changes what they say: \<open>x[2] + 2 * pi\<close> is
  rounded before its sine and cosine are taken; of a positive number below
  \<open>1 / 2 ^ 150\<close>, half the least positive float32 number, the nearest float32 number
  is 0; and of a number between \<open>1 - 1 / 2 ^ 25\<close> and 1 it is 1. They are no statements
  about the values the float32 code returns.
\<close>

lemma to_complex_wrap:
  assumes "length x = 4"
  shows "to_complex [x[2 := x ! 2 + 2 * pi]] [2] = to_complex [x] [2]"
proof -
  obtain x0 x1 x2 x3 where x: "x = [x0, x1, x2, x3]"
    using assms by (auto simp: length_Suc_conv eval_nat_numeral)
  show ?thesis
    by (simp add: x to_complex_def to_complex_row_def)
qed

lemma tip_xy_ncols: "tip_xy pl m = Inr t \<Longrightarrow> ncols m \<noteq> 4"
  by (cases m) (auto simp: tip_xy_def ncols_def split: if_splits)

text \<open>
  Over the reals the reward of a state of four entries does not change when \<open>2 * pi\<close> is
  added to its angle \<open>x[2]\<close>: the state enters the reward through the sine and the
  cosine of its angle only.
\<close>

lemma forward_angle_wrap_exact:
  assumes "length x = 4"
  shows "forward self (Vec (x[2 := x ! 2 + 2 * pi])) u = forward self (Vec x) u"
proof (cases "to_complex (target self) [2]")
  case (Inl e)
  then show ?thesis by (simp add: forward_def)
next
  case (Inr targeta)
  show ?thesis
  proof (cases "tip_xy (pole_length self) targeta")
    case (Inl e)
    then show ?thesis using Inr by (simp add: forward_def)
  next
    case tt: (Inr t)
    have "ncols targeta \<noteq> 4" using tt by (rule tip_xy_ncols)
    then show ?thesis
      using Inr tt assms by (simp add: forward_def ncols_def to_complex_wrap)
  qed
qed

lemma eight_sum_squares_zero:
  "8 * (a\<^sup>2 + b\<^sup>2) = 0 \<longleftrightarrow> a = 0 \<and> b = (0::real)"
proof -
  have "8 * (a\<^sup>2 + b\<^sup>2) = 0 \<longleftrightarrow> a\<^sup>2 + b\<^sup>2 = 0"
    by (simp only: mult_eq_0_iff) simp
  then show ?thesis by (simp only: sum_power2_eq_zero_iff)
qed

lemma quad_form_default_Q: "quad_form default_Q [a, b] = 16 * (a\<^sup>2 + b\<^sup>2)"
  by (simp add: quad_form_def default_Q_eq eval_nat_numeral algebra_simps)

lemma quad_form_default_R: "quad_form default_R [v] = v\<^sup>2 / 10000"
  by (simp add: quad_form_def default_R_eq power2_eq_square)

lemma spec_cost_default:
  "spec_cost pl tg default_Q default_R x [v]
     = 8 * ((spec_delta pl tg x ! 0)\<^sup>2 + (spec_delta pl tg x ! 1)\<^sup>2) + v\<^sup>2 / 20000"
  by (simp add: spec_cost_def spec_delta_def quad_form_default_Q quad_form_default_R)

lemma spec_cost_default_nonneg: "0 \<le> spec_cost pl tg default_Q default_R x [v]"
  by (simp add: spec_cost_default)

lemma spec_cost_default_zero:
  assumes "pl \<noteq> 0"
  shows "spec_cost pl tg default_Q default_R x [v] = 0
         \<longleftrightarrow> pole_tip pl (x ! 0) (x ! 2) = pole_tip pl (tg ! 0) (tg ! 2) \<and> v = 0"
proof -
  let ?d = "spec_delta pl tg x"
  have "spec_cost pl tg default_Q default_R x [v] = 0
        \<longleftrightarrow> 8 * ((?d ! 0)\<^sup>2 + (?d ! 1)\<^sup>2) = 0 \<and> v\<^sup>2 / 20000 = 0"
    unfolding spec_cost_default
    by (rule add_nonneg_eq_0_iff) simp_all
  also have "\<dots> \<longleftrightarrow> ?d ! 0 = 0 \<and> ?d ! 1 = 0 \<and> v = 0"
    by (simp only: eight_sum_squares_zero) simp
  also have "\<dots> \<longleftrightarrow> pole_tip pl (x ! 0) (x ! 2) = pole_tip pl (tg ! 0) (tg ! 2) \<and> v = 0"
    using assms by (simp add: spec_delta_def prod_eq_iff)
  finally show ?thesis .
qed

text \<open>
  Over the reals, with the default weights \<open>Q = 16 * I\<close> and \<open>R = 1e-4 * I\<close>, for a state
  and a target of four entries, an action of one entry and a pole length other than
  zero, the reward is one number \<open>r\<close> with \<open>0 < r \<le> 1\<close>, and \<open>r = 1\<close> exactly when the
  tip of the pole is the tip of the target's pole and the action is zero.
\<close>

lemma forward_default_range_exact:
  assumes "length x = 4" "length tg = 4" "pl \<noteq> 0" "length u = 1"
  shows "\<exists>r. forward (CartpoleReward_init pl (Vec tg) default_Q default_R) (Vec x) (Vec u)
               = Inr [[r]]
             \<and> 0 < r \<and> r \<le> 1
             \<and> (r = 1 \<longleftrightarrow> pole_tip pl (x ! 0) (x ! 2) = pole_tip pl (tg ! 0) (tg ! 2)
                           \<and> u = [0])"
proof -
  obtain v where u: "u = [v]"
    using assms(4) by (auto simp: length_Suc_conv)
  let ?c = "spec_cost pl tg default_Q default_R x [v]"
  have "forward (CartpoleReward_init pl (Vec tg) default_Q default_R) (Vec x) (Vec u)
        = Inr [[exp (- ?c)]]"
    unfolding u using assms(1,2,3)
    by (intro forward_value) (simp_all add: default_Q_eq default_R_eq)
  moreover have "0 < exp (- ?c)" by simp
  moreover have "exp (- ?c) \<le> 1" using spec_cost_default_nonneg[of pl tg x v] by simp
  moreover have "exp (- ?c) = 1
      \<longleftrightarrow> pole_tip pl (x ! 0) (x ! 2) = pole_tip pl (tg ! 0) (tg ! 2) \<and> u = [0]"
    using spec_cost_default_zero[OF assms(3), of tg x v] by (simp add: u)
  ultimately show ?thesis by blast
qed

text \<open>
  Two states where rounding matters. With the cart at 4 and the pole upright the exact
  reward is \<open>exp (- 128)\<close>, below \<open>1 / 2 ^ 150\<close>. At the target with the action
  \<open>0.001\<close> the exact reward is less than 1 and more than \<open>1 - 1 / 2 ^ 25\<close>.
\<close>

lemma exp_128_large: "(2::real) ^ 150 < exp 128"
proof -
  have q: "(5 / 4 :: real) \<le> exp (1 / 4)"
    using exp_ge_add_one_self[of "1 / 4 :: real"] by simp
  have "(2::real) ^ 10 < (5 / 4) ^ 32" by (simp add: power_divide)
  also have "\<dots> \<le> exp (1 / 4) ^ 32"
    using q by (intro power_mono) simp_all
  also have "\<dots> = exp 8"
    by (simp add: exp_of_nat_mult[symmetric])
  finally have e8: "(2::real) ^ 10 < exp 8" .
  have "(2::real) ^ 150 \<le> (2 ^ 10) ^ 16" by simp
  also have "\<dots> < exp 8 ^ 16"
    using e8 by (intro power_strict_mono) simp_all
  also have "\<dots> = exp 128"
    by (simp add: exp_of_nat_mult[symmetric])
  finally show ?thesis .
qed

lemma forward_far_state_exact:
  "forward (CartpoleReward_init (1 / 2) default_target default_Q default_R)
     (Vec [4, 0, pi, 0]) (Vec [0]) = Inr [[exp (- 128)]]
   \<and> exp (- 128) < (1 / 2 ^ 150 :: real)"
proof -
  have "forward (CartpoleReward_init (1 / 2) default_target default_Q default_R)
     (Vec [4, 0, pi, 0]) (Vec [0]) = Inr [[exp (- 128)]]"
    using forward_value[of "[4, 0, pi, 0]" "[0, 0, pi, 0]" "1 / 2" default_Q default_R "[0]"]
    by (simp add: default_target_def default_Q_eq default_R_eq spec_cost_def quad_form_def
        spec_delta_def pole_tip_def eval_nat_numeral)
  moreover have "exp (- 128) < (1 / 2 ^ 150 :: real)"
    using exp_128_large by (simp add: exp_minus field_simps)
  ultimately show ?thesis by simp
qed

lemma forward_near_target_exact:
  "forward (CartpoleReward_init (1 / 2) default_target default_Q default_R)
     (Vec [0, 0, pi, 0]) (Vec [1 / 1000]) = Inr [[exp (- (1 / 20000000000))]]
   \<and> exp (- (1 / 20000000000)) < (1::real)
   \<and> 1 - 1 / 2 ^ 25 < exp (- (1 / 20000000000 :: real))"
proof -
  have "forward (CartpoleReward_init (1 / 2) default_target default_Q default_R)
     (Vec [0, 0, pi, 0]) (Vec [1 / 1000]) = Inr [[exp (- (1 / 20000000000))]]"
    using forward_value[of "[0, 0, pi, 0]" "[0, 0, pi, 0]" "1 / 2" default_Q default_R "[1 / 1000]"]
    by (simp add: default_target_def default_Q_eq default_R_eq spec_cost_def quad_form_def
        spec_delta_def pole_tip_def eval_nat_numeral)
  moreover have "1 - 1 / 2 ^ 25 < exp (- (1 / 20000000000 :: real))"
    using exp_ge_add_one_self[of "- (1 / 20000000000) :: real"] by simp
  ultimately show ?thesis by simp
qed

section \<open>Properties of train\_model\<close>

lemma batches_Cons: "0 < k \<Longrightarrow> batches k (x # xs) = take k (x # xs) # batches k (drop k (x # xs))"
  by (subst batches.simps) simp

text \<open>
  Every call of \<open>next_batch\<close> constructs an iterator and takes its first batch: the
  first \<open>next\<close> reads an unbound local and its exception is caught.
\<close>

lemma next_batch_fresh:
  "next_batch dl k = bind_result (py_next (iter dl k)) (\<lambda>(xy, rest). Inr (xy, Suc k))"
  by (simp add: next_batch_def)

lemma next_batch_first:
  assumes "0 < batch_size dl" "shuffle dl k (dataset dl) \<noteq> []"
  shows "next_batch dl k = Inr (take (batch_size dl) (shuffle dl k (dataset dl)), Suc k)"
proof -
  obtain x xs where "shuffle dl k (dataset dl) = x # xs"
    using assms(2) by (cases "shuffle dl k (dataset dl)") auto
  then show ?thesis
    using assms(1) by (simp add: next_batch_fresh iter_def batches_Cons)
qed

lemma spec_loss_eq:
  "spec_loss L N resample b
     = (\<lambda>p. - mean (log_prob L p True resample b) + regularization_loss L p / real N)"
  by (simp add: spec_loss_def mean_def fun_eq_iff)

lemma train_iteration_step:
  assumes "0 < batch_size dl" "shuffle dl (iters_made st) (dataset dl) \<noteq> []" "training st"
  shows "train_iteration L dl N resample st =
     Inr (st\<lparr>params := snd (opt_step L (spec_loss L N resample (drawn dl (iters_made st))) (opt_state st, params st)),
             opt_state := fst (opt_step L (spec_loss L N resample (drawn dl (iters_made st))) (opt_state st, params st)),
             iters_made := Suc (iters_made st),
             history := history st @
               [\<lparr>batch_drawn = drawn dl (iters_made st),
                 params_before = params st,
                 loss_fn = spec_loss L N resample (drawn dl (iters_made st)),
                 loss_value = spec_loss L N resample (drawn dl (iters_made st)) (params st)\<rparr>]\<rparr>)"
  using assms(3)
  by (simp add: train_iteration_def next_batch_first[OF assms(1,2)] Let_def split_beta
      spec_loss_eq drawn_def)

lemma train_loop_run:
  assumes "0 < batch_size dl" "\<And>k. shuffle dl k (dataset dl) \<noteq> []" "training st"
  shows "\<exists>st' new. train_loop L dl N resample n st = Inr st'
      \<and> training st' \<and> iters_made st' = iters_made st + n
      \<and> history st' = history st @ new
      \<and> map batch_drawn new = map (drawn dl) [iters_made st..<iters_made st + n]
      \<and> (\<forall>g\<in>set new. loss_fn g = spec_loss L N resample (batch_drawn g)
             \<and> loss_value g = spec_loss L N resample (batch_drawn g) (params_before g))
      \<and> (\<forall>i<length new. params_before (new ! i) = snd (foldl (step_fn L) (opt_state st, params st) (take i new)))
      \<and> (opt_state st', params st') = foldl (step_fn L) (opt_state st, params st) new"
  using assms(3)
proof (induction n arbitrary: st)
  case 0
  then show ?case by simp
next
  case (Suc n)
  let ?b = "drawn dl (iters_made st)"
  let ?g = "\<lparr>batch_drawn = ?b, params_before = params st,
             loss_fn = spec_loss L N resample ?b,
             loss_value = spec_loss L N resample ?b (params st)\<rparr>"
  let ?s1 = "opt_step L (spec_loss L N resample ?b) (opt_state st, params st)"
  let ?st1 = "st\<lparr>params := snd ?s1, opt_state := fst ?s1, iters_made := Suc (iters_made st),
                 history := history st @ [?g]\<rparr>"
  have it: "train_iteration L dl N resample st = Inr ?st1"
    using train_iteration_step[OF assms(1) assms(2) Suc.prems] .
  have tr1: "training ?st1" using Suc.prems by simp
  from Suc.IH[OF tr1] obtain st' new where
    run: "train_loop L dl N resample n ?st1 = Inr st'"
    and tr: "training st'"
    and im: "iters_made st' = iters_made ?st1 + n"
    and hist: "history st' = history ?st1 @ new"
    and bd: "map batch_drawn new = map (drawn dl) [iters_made ?st1..<iters_made ?st1 + n]"
    and lf: "\<forall>g\<in>set new. loss_fn g = spec_loss L N resample (batch_drawn g)
             \<and> loss_value g = spec_loss L N resample (batch_drawn g) (params_before g)"
    and pb: "\<forall>i<length new. params_before (new ! i) = snd (foldl (step_fn L) (opt_state ?st1, params ?st1) (take i new))"
    and fin: "(opt_state st', params st') = foldl (step_fn L) (opt_state ?st1, params ?st1) new"
    by blast
  have s1: "(opt_state ?st1, params ?st1) = step_fn L (opt_state st, params st) ?g"
    by (simp add: step_fn_def)
  have 1: "train_loop L dl N resample (Suc n) st = Inr st'"
    using it run by simp
  have 2: "iters_made st' = iters_made st + Suc n" using im by simp
  have 3: "history st' = history st @ (?g # new)" using hist by simp
  have 4: "map batch_drawn (?g # new) = map (drawn dl) [iters_made st..<iters_made st + Suc n]"
    using bd by (simp add: upt_conv_Cons del: upt_Suc)
  have 5: "\<forall>g\<in>set (?g # new). loss_fn g = spec_loss L N resample (batch_drawn g)
             \<and> loss_value g = spec_loss L N resample (batch_drawn g) (params_before g)"
    using lf by simp
  have 6: "\<forall>i<length (?g # new). params_before ((?g # new) ! i)
             = snd (foldl (step_fn L) (opt_state st, params st) (take i (?g # new)))"
  proof (intro allI impI)
    fix i assume "i < length (?g # new)"
    then show "params_before ((?g # new) ! i)
             = snd (foldl (step_fn L) (opt_state st, params st) (take i (?g # new)))"
      using pb s1 by (cases i) simp_all
  qed
  have 7: "(opt_state st', params st') = foldl (step_fn L) (opt_state st, params st) (?g # new)"
    using fin s1 by simp
  show ?case using 1 tr 2 3 4 5 6 7 by blast
qed

lemma train_model_run:
  assumes "X \<noteq> []" "length X = length Y" "0 < bsize"
      and "\<And>k d. mset (shuffle_order k d) = mset d"
  shows "\<exists>st. train_model L shuffle_order p0 opt X Y n_iters resample bsize = Inr st
      \<and> \<not> training st \<and> iters_made st = Suc n_iters
      \<and> map batch_drawn (history st)
          = map (\<lambda>k. take bsize (shuffle_order k (zip X Y))) [1..<Suc n_iters]
      \<and> (\<forall>g\<in>set (history st). loss_fn g = spec_loss L (length X) resample (batch_drawn g)
             \<and> loss_value g = spec_loss L (length X) resample (batch_drawn g) (params_before g))
      \<and> (\<forall>i<length (history st). params_before (history st ! i)
             = snd (foldl (step_fn L) (opt, p0) (take i (history st))))
      \<and> (opt_state st, params st) = foldl (step_fn L) (opt, p0) (history st)"
proof -
  let ?dl = "\<lparr>dataset = zip X Y, batch_size = bsize, shuffle = shuffle_order\<rparr>"
  let ?st0 = "\<lparr>training = True, params = p0, opt_state = opt, iters_made = Suc 0, history = []\<rparr>"
  have ne: "zip X Y \<noteq> []" using assms(1,2) by (cases X; cases Y) auto
  have sh: "shuffle ?dl k (dataset ?dl) \<noteq> []" for k
  proof -
    have "mset (shuffle_order k (zip X Y)) \<noteq> {#}" using ne by (simp add: assms(4))
    then show ?thesis by auto
  qed
  have bs: "0 < batch_size ?dl" using assms(3) by simp
  have tr: "training ?st0" by simp
  from train_loop_run[of ?dl ?st0 L "length X" resample n_iters, OF bs sh tr]
  obtain st' new where
    run: "train_loop L ?dl (length X) resample n_iters ?st0 = Inr st'"
    and im: "iters_made st' = iters_made ?st0 + n_iters"
    and hist: "history st' = history ?st0 @ new"
    and bd: "map batch_drawn new = map (drawn ?dl) [iters_made ?st0..<iters_made ?st0 + n_iters]"
    and lf: "\<forall>g\<in>set new. loss_fn g = spec_loss L (length X) resample (batch_drawn g)
             \<and> loss_value g = spec_loss L (length X) resample (batch_drawn g) (params_before g)"
    and pb: "\<forall>i<length new. params_before (new ! i) = snd (foldl (step_fn L) (opt_state ?st0, params ?st0) (take i new))"
    and fin: "(opt_state st', params st') = foldl (step_fn L) (opt_state ?st0, params ?st0) new"
    by auto
  have h: "history st' = new" using hist by simp
  have res: "train_model L shuffle_order p0 opt X Y n_iters resample bsize = Inr (st'\<lparr>training := False\<rparr>)"
    using assms(1,2,3) run by (simp add: train_model_def Let_def)
  have d: "drawn ?dl = (\<lambda>k. take bsize (shuffle_order k (zip X Y)))"
    by (simp add: drawn_def fun_eq_iff)
  show ?thesis
    using res im bd lf pb fin unfolding h[symmetric] d by simp
qed

lemma batch_of_permutation:
  assumes "mset s = mset d" "d \<noteq> []" "0 < k"
  shows "take k s \<noteq> [] \<and> set (take k s) \<subseteq> set d"
proof -
  have "s \<noteq> []" using assms(1,2) by auto
  moreover have "set s = set d" using assms(1) by (rule mset_eq_setD)
  ultimately show ?thesis using assms(3) set_take_subset[of k s] by auto
qed

text \<open>
  Claim C3. For a dataset of at least one sample (\<open>X\<close> and \<open>Y\<close> of one length), a
  positive batch size, shuffles that permute the dataset and any \<open>n_iters\<close>,
  \<open>train_model\<close> returns, with the model in evaluation mode, after exactly \<open>n_iters\<close>
  gradient steps. Each step is taken on a batch that is not empty and drawn from the
  dataset, with the loss \<open>- (mean log-likelihood of the batch) + regularization_loss / length X\<close>
  as a function of the parameters, from the parameters the steps before it left; the
  final parameters and optimizer state are those after the last step.
\<close>

theorem train_model_n_gradient_steps:
  assumes "X \<noteq> []" "length X = length Y" "0 < bsize"
      and "\<And>k d. mset (shuffle_order k d) = mset d"
  shows "\<exists>st. train_model L shuffle_order p0 opt X Y n_iters resample bsize = Inr st
      \<and> \<not> training st
      \<and> length (history st) = n_iters
      \<and> (\<forall>g\<in>set (history st). batch_drawn g \<noteq> [] \<and> set (batch_drawn g) \<subseteq> set (zip X Y)
             \<and> loss_fn g = spec_loss L (length X) resample (batch_drawn g)
             \<and> loss_value g = spec_loss L (length X) resample (batch_drawn g) (params_before g))
      \<and> (\<forall>i<n_iters. params_before (history st ! i)
             = snd (foldl (\<lambda>s g. opt_step L (loss_fn g) s) (opt, p0) (take i (history st))))
      \<and> (opt_state st, params st) = foldl (\<lambda>s g. opt_step L (loss_fn g) s) (opt, p0) (history st)"
proof -
  have "\<exists>st. train_model L shuffle_order p0 opt X Y n_iters resample bsize = Inr st
      \<and> \<not> training st \<and> iters_made st = Suc n_iters
      \<and> map batch_drawn (history st)
          = map (\<lambda>k. take bsize (shuffle_order k (zip X Y))) [1..<Suc n_iters]
      \<and> (\<forall>g\<in>set (history st). loss_fn g = spec_loss L (length X) resample (batch_drawn g)
             \<and> loss_value g = spec_loss L (length X) resample (batch_drawn g) (params_before g))
      \<and> (\<forall>i<length (history st). params_before (history st ! i)
             = snd (foldl (step_fn L) (opt, p0) (take i (history st))))
      \<and> (opt_state st, params st) = foldl (step_fn L) (opt, p0) (history st)"
    by (rule train_model_run[OF assms(1) assms(2) assms(3)]) (rule assms(4))
  then obtain st where
    res: "train_model L shuffle_order p0 opt X Y n_iters resample bsize = Inr st"
    and ev: "\<not> training st"
    and bd: "map batch_drawn (history st)
          = map (\<lambda>k. take bsize (shuffle_order k (zip X Y))) [1..<Suc n_iters]"
    and lf: "\<forall>g\<in>set (history st). loss_fn g = spec_loss L (length X) resample (batch_drawn g)
             \<and> loss_value g = spec_loss L (length X) resample (batch_drawn g) (params_before g)"
    and pb: "\<forall>i<length (history st). params_before (history st ! i)
             = snd (foldl (step_fn L) (opt, p0) (take i (history st)))"
    and fin: "(opt_state st, params st) = foldl (step_fn L) (opt, p0) (history st)"
    by (elim exE conjE)
  have len: "length (history st) = n_iters"
    using arg_cong[OF bd, of length] by simp
  have ne: "zip X Y \<noteq> []" using assms(1,2) by (cases X; cases Y) auto
  have bt: "batch_drawn g \<noteq> [] \<and> set (batch_drawn g) \<subseteq> set (zip X Y)" if "g \<in> set (history st)" for g
  proof -
    have "batch_drawn g \<in> set (map batch_drawn (history st))" using that by simp
    then obtain k where "batch_drawn g = take bsize (shuffle_order k (zip X Y))"
      unfolding bd by auto
    then show ?thesis
      using batch_of_permutation[OF assms(4) ne assms(3), of k] by simp
  qed
  have sf: "step_fn L = (\<lambda>s g. opt_step L (loss_fn g) s)"
    by (simp add: step_fn_def fun_eq_iff)
  show ?thesis
    using res ev len lf pb fin bt unfolding sf by auto
qed

theorem train_model_n_gradient_steps_witness:
  "\<exists>st. train_model \<lparr>log_prob = (\<lambda>p tr rs b. map (\<lambda>(x, y). p * real x - real y) b),
                        regularization_loss = (\<lambda>p. p\<^sup>2),
                        opt_step = (\<lambda>loss (k, p). (Suc k, p - loss p))\<rparr>
         (\<lambda>k. rev) 1 (0::nat) [1::nat, 2, 3] [10::nat, 20, 30] 2 True 2 = Inr st
      \<and> \<not> training st
      \<and> length (history st) = 2
      \<and> (\<forall>g\<in>set (history st). batch_drawn g \<noteq> []
             \<and> set (batch_drawn g) \<subseteq> set (zip [1::nat, 2, 3] [10::nat, 20, 30])
             \<and> loss_fn g = spec_loss \<lparr>log_prob = (\<lambda>p tr rs b. map (\<lambda>(x, y). p * real x - real y) b),
                        regularization_loss = (\<lambda>p. p\<^sup>2),
                        opt_step = (\<lambda>loss (k, p). (Suc k, p - loss p))\<rparr>
                  (length [1::nat, 2, 3]) True (batch_drawn g)
             \<and> loss_value g = spec_loss \<lparr>log_prob = (\<lambda>p tr rs b. map (\<lambda>(x, y). p * real x - real y) b),
                        regularization_loss = (\<lambda>p. p\<^sup>2),
                        opt_step = (\<lambda>loss (k, p). (Suc k, p - loss p))\<rparr>
                  (length [1::nat, 2, 3]) True (batch_drawn g) (params_before g))
      \<and> (\<forall>i<2. params_before (history st ! i)
             = snd (foldl (\<lambda>s g. opt_step \<lparr>log_prob = (\<lambda>p tr rs b. map (\<lambda>(x, y). p * real x - real y) b),
                        regularization_loss = (\<lambda>p. p\<^sup>2),
                        opt_step = (\<lambda>loss (k, p). (Suc k, p - loss p))\<rparr> (loss_fn g) s) (0, 1) (take i (history st))))
      \<and> (opt_state st, params st) = foldl (\<lambda>s g. opt_step \<lparr>log_prob = (\<lambda>p tr rs b. map (\<lambda>(x, y). p * real x - real y) b),
                        regularization_loss = (\<lambda>p. p\<^sup>2),
                        opt_step = (\<lambda>loss (k, p). (Suc k, p - loss p))\<rparr> (loss_fn g) s) (0, 1) (history st)"
  by (rule train_model_n_gradient_steps) simp_all

text \<open>
  Claim C4, evaluated on a dataset of three samples with batches of one sample, two
  iterations, and shuffles that leave the order as it is. The claim says that the
  second iteration draws the second batch of the iterator in use, and that a new
  iterator is constructed only when that one is exhausted. The code draws the first
  batch \<open>[(1, 10)]\<close> twice and has constructed three iterators, one in \<open>train_model\<close>
  and one in each call of \<open>next_batch\<close>, none of which was exhausted.
\<close>

theorem next_batch_fresh_iterator_every_call:
  "train_model \<lparr>log_prob = (\<lambda>p tr rs b. map (\<lambda>xy. 0) b),
                 regularization_loss = (\<lambda>p. 0),
                 opt_step = (\<lambda>loss s. s)\<rparr>
         (\<lambda>k d. d) () () [1::nat, 2, 3] [10::nat, 20, 30] 2 True 1
   = Inr \<lparr>training = False, params = (), opt_state = (), iters_made = 3,
          history = [\<lparr>batch_drawn = [(1, 10)], params_before = (), loss_fn = (\<lambda>p. 0), loss_value = 0\<rparr>,
                     \<lparr>batch_drawn = [(1, 10)], params_before = (), loss_fn = (\<lambda>p. 0), loss_value = 0\<rparr>]\<rparr>"
  by (simp add: train_model_def train_iteration_def next_batch_fresh iter_def batches_Cons
      mean_def Let_def numeral_2_eq_2)
section \<open>Properties of load\_checkpoint\<close>

text \<open>
  For a \<open>str\<close> path, in a world whose loads raise nothing but exceptions that derive
  from \<open>Exception\<close>, every block ends normally, so \<open>load_checkpoint\<close> attempts all
  loads and returns.
\<close>

lemma raises_only_ExceptionD:
  assumes "raises_only_Exception env"
  shows "torch_load env fname = Inl e \<Longrightarrow> is_Exception e"
    and "dyn_load env prm d = (Some e, d') \<Longrightarrow> is_Exception e"
    and "pol_load env prm p = (Some e, p') \<Longrightarrow> is_Exception e"
    and "val_load env prm v = (Some e, v') \<Longrightarrow> is_Exception e"
    and "exp_load env fname x = (Some e, x') \<Longrightarrow> is_Exception e"
  using assms unfolding raises_only_Exception_def by blast+

lemma except_Exception_warn:
  assumes "\<And>e s'. r = (Some e, s') \<Longrightarrow> is_Exception e"
  shows "fst (except_Exception r (warn m)) = None"
proof (cases r)
  case (Pair x s')
  then show ?thesis
    using assms by (cases x) (simp_all add: except_Exception_def warn_def)
qed

lemma os_path_join_str: "\<exists>fname. os_path_join (StrPath p) name = Inr fname"
  by simp

lemma dyn_block_str:
  assumes "raises_only_Exception env"
  shows "fst (dyn_block env (StrPath p) s) = None"
proof -
  obtain fname where f: "os_path_join (StrPath p) ''latest_dynamics.pth.tar'' = Inr fname"
    using os_path_join_str by blast
  show ?thesis
    unfolding dyn_block_def f
    by (rule except_Exception_warn)
       (auto dest: raises_only_ExceptionD[OF assms] split: sum.splits prod.splits)
qed

lemma pol_block_str:
  assumes "raises_only_Exception env"
  shows "fst (pol_block env (StrPath p) s) = None"
proof -
  obtain fname where f: "os_path_join (StrPath p) ''latest_policy.pth.tar'' = Inr fname"
    using os_path_join_str by blast
  show ?thesis
    unfolding pol_block_def f
    by (rule except_Exception_warn)
       (auto dest: raises_only_ExceptionD[OF assms] split: sum.splits prod.splits)
qed

lemma val_block_str:
  assumes "raises_only_Exception env"
  shows "fst (val_block env (StrPath p) s) = None"
proof (cases "val_obj s")
  case None
  then show ?thesis by (simp add: val_block_def)
next
  case (Some v)
  obtain fname where f: "os_path_join (StrPath p) ''latest_critic.pth.tar'' = Inr fname"
    using os_path_join_str by blast
  have "fst (except_Exception
          (case torch_load env fname of
             Inl e \<Rightarrow> (Some e, s)
           | Inr val_params \<Rightarrow>
               (case val_load env val_params v of (r, v') \<Rightarrow> (r, s\<lparr>val_obj := Some v'\<rparr>)))
          (warn (msg_format fname))) = None"
    by (rule except_Exception_warn)
       (auto dest: raises_only_ExceptionD[OF assms] split: sum.splits prod.splits)
  then show ?thesis
    unfolding val_block_def f by (simp add: Some)
qed

lemma exp_block_str:
  assumes "raises_only_Exception env"
  shows "fst (exp_block env (StrPath p) s) = None"
proof -
  obtain fname where f: "os_path_join (StrPath p) ''experience.pth.tar'' = Inr fname"
    using os_path_join_str by blast
  have "fst (except_Exception
          (case exp_load env fname (exp_obj s) of (r, x) \<Rightarrow> (r, s\<lparr>exp_obj := x\<rparr>))
          (warn (msg_format fname))) = None"
    by (rule except_Exception_warn)
       (auto dest: raises_only_ExceptionD[OF assms] split: sum.splits prod.splits)
  then show ?thesis
    unfolding exp_block_def f by simp
qed

lemma and_then_None:
  "fst r = None \<Longrightarrow> (\<And>s. fst (g s) = None) \<Longrightarrow> fst (and_then r g) = None"
  by (cases r) (simp add: and_then_def)

lemma load_checkpoint_str_path_returns:
  assumes "raises_only_Exception env"
  shows "fst (load_checkpoint env (StrPath p) s) = None"
  unfolding load_checkpoint_def
  by (intro and_then_None dyn_block_str pol_block_str val_block_str exp_block_str assms)

text \<open>
  Claim C5, evaluated on the path \<open>b'ckpt'\<close> with no critic, in a world where every
  file loads. The claim says that \<open>load_checkpoint\<close> never propagates an exception.
  \<open>os.path.join\<close> of a \<open>bytes\<close> path and a \<open>str\<close> name raises TypeError. In the
  dynamics and policy blocks the handler warns, formatting the message from \<open>path\<close>.
  In the experience block the TypeError leaves \<open>exp_path\<close> unbound, the handler reads
  it, and the UnboundLocalError leaves the function, after two warnings.
\<close>

theorem load_checkpoint_bytes_path_raises:
  "load_checkpoint
     \<lparr>torch_load = (\<lambda>file. Inr ()), dyn_load = (\<lambda>prm d. (None, d)), pol_load = (\<lambda>prm p. (None, p)),
      val_load = (\<lambda>prm v. (None, v)), exp_load = (\<lambda>file x. (None, x))\<rparr>
     (BytesPath ''ckpt'')
     \<lparr>dyn_obj = (), pol_obj = (), val_obj = (None :: unit option), exp_obj = (), warnings = []\<rparr>
   = (Some UnboundLocalError,
      \<lparr>dyn_obj = (), pol_obj = (), val_obj = None, exp_obj = (),
       warnings = [msg_format (str_of_path (BytesPath ''ckpt'')),
                   msg_format (str_of_path (BytesPath ''ckpt''))]\<rparr>)"
  by (simp add: load_checkpoint_def dyn_block_def pol_block_def val_block_def exp_block_def
      except_Exception_def and_then_def warn_def)

section \<open>Properties of batch\_jacobian\<close>

text \<open>
  Where input and output have as many dimensions, and the output is computed from the
  input by differentiable operations, the function returns the Jacobian, in a tuple of
  one element: row \<open>a\<close> of \<open>torch.eye\<close> selects row \<open>a\<close> of the Jacobian.
\<close>

lemma eye_row_times:
  assumes "length c = n" "a < n"
  shows "sum_list (map2 (*) (map (\<lambda>j. if a = j then 1 else 0) [0..<n]) c) = (c ! a :: real)"
proof -
  have "sum_list (map2 (*) (map (\<lambda>j. if a = j then 1 else 0) [0..<n]) c)
        = (\<Sum>i<n. (if a = i then 1 else 0) * c ! i)"
    using assms(1) by (simp add: sum_list_map2_times)
  also have "\<dots> = (\<Sum>i<n. if a = i then c ! i else 0)"
    by (rule sum.cong) simp_all
  also have "\<dots> = c ! a"
    using assms(2) by simp
  finally show ?thesis .
qed

lemma vecmat_eye_row:
  assumes "length J = n" "\<forall>row\<in>set J. length row = n" "a < n"
  shows "vecmat (map (\<lambda>j. if a = j then 1 else 0) [0..<n]) J = J ! a"
proof -
  have nc: "ncols J = n" using assms by (intro ncols_square) auto
  have la: "length (J ! a) = n" using assms by simp
  have "vecmat (map (\<lambda>j. if a = j then 1 else 0) [0..<n]) J = map (\<lambda>b. column b J ! a) [0..<n]"
    unfolding vecmat_def nc
    by (rule map_cong[OF refl]) (simp add: eye_row_times assms column_def)
  also have "\<dots> = map (\<lambda>b. J ! a ! b) [0..<n]"
    using assms by (simp add: column_def)
  also have "\<dots> = J ! a"
    using la by (metis map_nth)
  finally show ?thesis .
qed

lemma batch_jacobian_square:
  assumes "length x = n" "length (f x) = n" "0 < n"
      and "length (Jf x) = n" "\<forall>row\<in>set (Jf x). length row = n"
  shows "batch_jacobian f Jf (Vec x) None = Inr [Jf x]"
proof -
  have shape: "length (eye n) = n" "ncols (eye n) = n"
    "ncols (map f (replicate n x)) = n"
    using assms(2,3) by (cases n; simp add: eye_def ncols_def upt_conv_Cons del: upt_Suc)+
  have "map2 (\<lambda>g row. vecmat g (Jf row)) (eye n) (replicate n x)
        = map (\<lambda>a. vecmat (map (\<lambda>j. if a = j then 1 else 0) [0..<n]) (Jf x)) [0..<n]"
    by (simp add: eye_def map2_map_map zip_replicate2 list_eq_iff_nth_eq)
  also have "\<dots> = map (\<lambda>a. Jf x ! a) [0..<n]"
    by (rule map_cong[OF refl]) (simp add: vecmat_eye_row[OF assms(4,5)])
  also have "\<dots> = Jf x"
    using assms(4) by (metis map_nth)
  finally show ?thesis
    using assms(1,2) shape by (simp add: batch_jacobian_def autograd_grad_def)
qed

lemma batch_jacobian_square_example:
  "batch_jacobian (\<lambda>x. [x ! 0 * x ! 1, x ! 0 + x ! 1]) (\<lambda>x. [[x ! 1, x ! 0], [1, 1]]) (Vec [3, 5]) None
   = Inr [[[5, 3], [1, 1]]]"
  by (simp add: batch_jacobian_def autograd_grad_def eye_def ncols_def vecmat_def column_def
      eval_nat_numeral)

text \<open>
  Where they differ in number the weights \<open>torch.eye(x.shape[-1])\<close> do not have the
  shape of the output, which is \<open>out_dims\<close> by \<open>out_dims\<close>.
\<close>

lemma batch_jacobian_mismatch:
  assumes "length (f x) \<noteq> length x"
  shows "batch_jacobian f Jf (Vec x) None = Inl (Raised RuntimeError)"
  using assms by (simp add: batch_jacobian_def autograd_grad_def eye_def)

text \<open>
  Claim C7, evaluated on \<open>f(x) = [x[0] + x[1], x[1] * x[2]]\<close> at \<open>x = [1, 2, 3]\<close>:
  three inputs, two outputs, Jacobian \<open>[[1, 1, 0], [0, 3, 2]]\<close>. The claim says that
  \<open>batch_jacobian\<close> returns the Jacobian also when the output dimension differs from
  the input dimension. The code raises a RuntimeError: the output of the repeated input
  is 2 by 2 and the weights handed to \<open>torch.autograd.grad\<close> are \<open>torch.eye(3)\<close>.
\<close>

theorem batch_jacobian_shape_mismatch_example:
  "batch_jacobian (\<lambda>x. [x ! 0 + x ! 1, x ! 1 * x ! 2])
     (\<lambda>x. [[1, 1, 0], [0, x ! 2, x ! 1]]) (Vec [1, 2, 3]) None
   = Inl (Raised RuntimeError)"
  by (simp add: batch_jacobian_def autograd_grad_def eye_def ncols_def)

section \<open>Properties of the Cartpole environment\<close>

text \<open>
  Claim C8. Constructed with \<open>model=None\<close> the environment uses the default model, and
  with a model it uses that model. When \<open>reward_func\<close> is not callable (\<open>None\<close> or any
  other object that is not callable) the reward function is a \<open>CartpoleReward\<close> whose
  pole length is the \<open>lp\<close> of the model in use; a callable \<open>reward_func\<close> is used as
  given.
\<close>

theorem Cartpole_init_defaults:
  "env_model (Cartpole_init dm None r) = dm
   \<and> env_model (Cartpole_init dm (Some m) r) = m
   \<and> (\<not> callable r \<longrightarrow>
        (\<exists>rw. env_reward_func (Cartpole_init dm ma r) = Default rw
              \<and> pole_length rw = lp (env_model (Cartpole_init dm ma r))))
   \<and> env_reward_func (Cartpole_init dm ma (CallableReward f) :: 'f GymEnv_args) = Given f"
  by (cases r) (simp_all add: Cartpole_init_def CartpoleReward_init_def Let_def)

theorem Cartpole_init_defaults_witness:
  "env_model (Cartpole_init \<lparr>lp = 1 / 2, mp = 1 / 2, mc = 1 / 2\<rparr> None (OtherReward (3::nat)) :: nat GymEnv_args)
     = \<lparr>lp = 1 / 2, mp = 1 / 2, mc = 1 / 2\<rparr>
   \<and> \<not> callable (OtherReward (3::nat) :: (nat, nat) reward_arg)
   \<and> (\<exists>rw. env_reward_func (Cartpole_init \<lparr>lp = 1 / 2, mp = 1 / 2, mc = 1 / 2\<rparr>
                (Some \<lparr>lp = 3 / 5, mp = 1, mc = 1\<rparr>) (OtherReward (3::nat)) :: nat GymEnv_args) = Default rw
            \<and> pole_length rw = 3 / 5)"
  using Cartpole_init_defaults[of "\<lparr>lp = 1 / 2, mp = 1 / 2, mc = 1 / 2\<rparr>" "OtherReward (3::nat)"
      "\<lparr>lp = 3 / 5, mp = 1, mc = 1\<rparr>" "Some \<lparr>lp = 3 / 5, mp = 1, mc = 1\<rparr>" "0::nat"]
  by (simp add: Cartpole_init_def)

lemma outside_default_x:
  assumes "2 < length s"
  shows "outside (Some s) 0 default_x_lim = Inr (s ! 0 < - 3.5 \<or> s ! 0 > 3.5)"
  using assms by (auto simp: outside_def subscript_state_def py_get_def default_x_lim_def)

lemma outside_default_ang:
  assumes "2 < length s"
  shows "outside (Some s) 2 default_ang_lim = Inr (s ! 2 < - 4 * pi \<or> s ! 2 > 4 * pi)"
  using assms by (auto simp: outside_def subscript_state_def py_get_def default_ang_lim_def)

text \<open>
  Claim C9. With the default limits, when the step of the base class returns and
  leaves a state of at least three entries, \<open>Cartpole.step\<close> returns the same
  observation, reward and info, with a done flag that is true whenever the cart position
  \<open>self.state[0]\<close> is outside \<open>[-3.5, 3.5]\<close> or the angle \<open>self.state[2]\<close> is outside
  \<open>[-4 * pi, 4 * pi]\<close>, and that is true whenever the flag of the base class is.
\<close>

theorem Cartpole_step_done:
  assumes "base_step action self_state = Inr ((obs, reward, done, info), Some s)"
      and "2 < length s"
  shows "\<exists>done'. Cartpole_step base_step action default_x_lim default_ang_lim self_state
                    = Inr ((obs, reward, done', info), Some s)
           \<and> (s ! 0 < - 3.5 \<or> s ! 0 > 3.5 \<or> s ! 2 < - 4 * pi \<or> s ! 2 > 4 * pi \<longrightarrow> done')
           \<and> (done \<longrightarrow> done')"
  using assms
  by (simp add: Cartpole_step_def outside_default_x outside_default_ang)

theorem Cartpole_step_done_witness:
  "\<exists>done'. Cartpole_step (\<lambda>a st. Inr (((), 0, False, ()), Some [4, 0, 0, 0])) ()
              default_x_lim default_ang_lim (Some [0, 0, 0, 0])
             = Inr (((), 0, done', ()), Some [4, 0, 0, 0])
           \<and> done'"
  using Cartpole_step_done[of "\<lambda>a st. Inr (((), 0, False, ()), Some [4, 0, 0, 0])" "()"
      "Some [0, 0, 0, 0]" "()" 0 False "()" "[4, 0, 0, 0]"]
  by simp

section \<open>Properties of tqdm\_joblib\<close>

text \<open>
  Claim C6 as stated, refuted: under \<open>tqdm_joblib\<close> with a bar constructed with
  \<open>disable=True\<close>, a batch of four tasks completes while the body runs (joblib's own
  callback is called with 4), and the bar has not advanced by the batch size: the
  subclass calls \<open>tqdm_object.update\<close>, which leaves a disabled bar as it is.
\<close>

theorem tqdm_joblib_disabled_bar_not_advanced:
  "completed (snd (tqdm_joblib 0 one_batch_body disabled_bars_state)) = [4]
   \<and> bar_n (bars (snd (tqdm_joblib 0 one_batch_body disabled_bars_state)) 0) = 0
   \<and> bar_n (bars (snd (tqdm_joblib 0 one_batch_body disabled_bars_state)) 0)
       \<noteq> bar_n (bars disabled_bars_state 0) + 4"
  by (simp add: tqdm_joblib_def one_batch_body_def disabled_bars_state_def tqdm_update_def
      tqdm_close_def Let_def)

text \<open>
  Claim C6, amended. Whatever the body does, return or raise, after \<open>tqdm_joblib\<close> the
  class bound to \<open>joblib.parallel.BatchCompletionCallBack\<close> is the one bound on entry
  and the progress bar is closed; the outcome is the body's. The body runs with the
  subclass bound, whose call is \<open>tqdm_object.update(n=batch_size)\<close> followed by what
  the class bound on entry does; the update advances the bar by the batch size unless
  the bar is disabled (constructed with \<open>disable=True\<close>, or closed), and leaves a
  disabled bar unchanged.
\<close>

theorem tqdm_joblib_restores_closes_and_updates:
  "BatchCompletionCallBack (snd (tqdm_joblib t body w)) = BatchCompletionCallBack w
   \<and> bar_disable (bars (snd (tqdm_joblib t body w)) t)
   \<and> fst (tqdm_joblib t body w)
       = fst (body t (w\<lparr>BatchCompletionCallBack :=
                          TqdmBatchCompletionCallback (BatchCompletionCallBack w) t\<rparr>))
   \<and> call_callback (TqdmBatchCompletionCallback (BatchCompletionCallBack w) t) bs w'
       = call_callback (BatchCompletionCallBack w) bs (tqdm_update t bs w')
   \<and> bar_n (bars (tqdm_update t bs w') t)
       = (if bar_disable (bars w' t) then bar_n (bars w' t) else bar_n (bars w' t) + bs)"
proof -
  let ?w1 = "w\<lparr>BatchCompletionCallBack := TqdmBatchCompletionCallback (BatchCompletionCallBack w) t\<rparr>"
  obtain r w2 where b: "body t ?w1 = (r, w2)" by (cases "body t ?w1")
  show ?thesis
    by (cases r) (simp_all add: tqdm_joblib_def b tqdm_close_def tqdm_update_def Let_def)
qed

theorem tqdm_joblib_restores_closes_and_updates_witness:
  "BatchCompletionCallBack
     (snd (tqdm_joblib 0
        (\<lambda>t w. (Inl RuntimeError :: exc + unit, call_callback (BatchCompletionCallBack w) 4 w))
        \<lparr>BatchCompletionCallBack = JoblibCallBack,
         bars = (\<lambda>t. \<lparr>bar_n = 0, bar_disable = False\<rparr>), completed = []\<rparr>))
     = JoblibCallBack
   \<and> bar_disable (bars
     (snd (tqdm_joblib 0
        (\<lambda>t w. (Inl RuntimeError :: exc + unit, call_callback (BatchCompletionCallBack w) 4 w))
        \<lparr>BatchCompletionCallBack = JoblibCallBack,
         bars = (\<lambda>t. \<lparr>bar_n = 0, bar_disable = False\<rparr>), completed = []\<rparr>)) 0)
   \<and> bar_n (bars
     (snd (tqdm_joblib 0
        (\<lambda>t w. (Inl RuntimeError :: exc + unit, call_callback (BatchCompletionCallBack w) 4 w))
        \<lparr>BatchCompletionCallBack = JoblibCallBack,
         bars = (\<lambda>t. \<lparr>bar_n = 0, bar_disable = False\<rparr>), completed = []\<rparr>)) 0) = 4
   \<and> fst (tqdm_joblib 0
        (\<lambda>t w. (Inl RuntimeError :: exc + unit, call_callback (BatchCompletionCallBack w) 4 w))
        \<lparr>BatchCompletionCallBack = JoblibCallBack,
         bars = (\<lambda>t. \<lparr>bar_n = 0, bar_disable = False\<rparr>), completed = []\<rparr>)
     = Inl RuntimeError"
  using tqdm_joblib_restores_closes_and_updates[of 0
      "\<lambda>t w. (Inl RuntimeError :: exc + unit, call_callback (BatchCompletionCallBack w) 4 w)"
      "\<lparr>BatchCompletionCallBack = JoblibCallBack,
        bars = (\<lambda>t. \<lparr>bar_n = 0, bar_disable = False\<rparr>), completed = []\<rparr>" 4
      "\<lparr>BatchCompletionCallBack = JoblibCallBack,
        bars = (\<lambda>t. \<lparr>bar_n = 0, bar_disable = False\<rparr>), completed = []\<rparr>"]
  by (simp add: tqdm_joblib_def tqdm_update_def tqdm_close_def Let_def)

end
